theory Spec2Isabelle
  imports Main "HOL-Library.Word"
begin

section \<open>The booking form of \<^verbatim>\<open>src/components/BookingForm.tsx\<close>\<close>

subsection \<open>JavaScript strings\<close>

text \<open>
  A JavaScript string is a sequence of UTF-16 code units; \<^verbatim>\<open>.length\<close>, \<^verbatim>\<open>.slice\<close> and a
  regular expression without the \<^verbatim>\<open>u\<close> flag all work on code units. The empty string
  \<^verbatim>\<open>''\<close> is the empty list. \<open>js\<close> writes an ASCII literal as such a string.
\<close>

type_synonym code_unit = "16 word"

type_synonym jsstring = "code_unit list"

definition js :: "string \<Rightarrow> jsstring" where
  "js s = map of_char s"

text \<open>The character class \<^verbatim>\<open>\d\<close> is \<^verbatim>\<open>[0-9]\<close>, and \<^verbatim>\<open>\D\<close> is its complement.\<close>

definition isDigit :: "code_unit \<Rightarrow> bool" where
  "isDigit u \<longleftrightarrow> 0x30 \<le> u \<and> u \<le> 0x39"

definition nonDigit :: "code_unit \<Rightarrow> bool" where
  "nonDigit u \<longleftrightarrow> \<not> isDigit u"

text \<open>
  \<^verbatim>\<open>s.replace(/\D/g, '')\<close>: the string is scanned from the left, every match of \<^verbatim>\<open>\D\<close>
  (one code unit) is replaced by the replacement \<^verbatim>\<open>''\<close>, everything else is copied.
\<close>

fun replace_nonDigits :: "jsstring \<Rightarrow> jsstring" where
  "replace_nonDigits [] = []"
| "replace_nonDigits (u # us) =
     (if nonDigit u then [] @ replace_nonDigits us else u # replace_nonDigits us)"

text \<open>
  \<^verbatim>\<open>s.slice(start, end)\<close> of \<^verbatim>\<open>String.prototype\<close>: a negative index counts from the
  end, both indices are clipped to the string, and an empty range gives \<^verbatim>\<open>''\<close>.
\<close>

definition slice_str :: "int \<Rightarrow> int \<Rightarrow> jsstring \<Rightarrow> jsstring" where
  "slice_str start end s =
     (let len = int (length s);
          from = (if start < 0 then max (len + start) 0 else min start len);
          to = (if end < 0 then max (len + end) 0 else min end len)
      in if to \<le> from then [] else take (nat (to - from)) (drop (nat from) s))"

subsection \<open>Data\<close>

text \<open>
  A string-typed field that may hold \<^verbatim>\<open>undefined\<close> at run time.
\<close>

datatype jstext = Str jsstring | Undefined

text \<open>
  Numbers are IEEE doubles. The form only ever holds integer-valued ones, so a finite
  number is the integer it denotes (the two zeros are not told apart); \<open>fl\<close> rounds an
  exact integer result to the nearest double, ties to the even significand, and overflows
  to an infinity.
\<close>

datatype jsnumber = Num int | NaN | PosInfinity | NegInfinity

function bit_length :: "int \<Rightarrow> nat" where
  "bit_length n = (if n \<le> 0 then 0 else Suc (bit_length (n div 2)))"
  by pat_completeness auto
termination
  by (relation "measure nat") auto

declare bit_length.simps [simp del]

definition fl :: "int \<Rightarrow> jsnumber" where
  "fl x =
     (let a = \<bar>x\<bar>
      in if a < 2 ^ 53 then Num x
         else
           let e = bit_length a - 53;
               q = a div 2 ^ e;
               r = a mod 2 ^ e;
               q' = (if 2 ^ e < 2 * r \<or> (2 * r = 2 ^ e \<and> odd q) then q + 1 else q)
           in if 2 ^ 1024 \<le> q' * 2 ^ e
              then (if x < 0 then NegInfinity else PosInfinity)
              else Num (sgn x * (q' * 2 ^ e)))"

text \<open>\<^verbatim>\<open>a + b\<close> on two finite numbers.\<close>

definition js_plus :: "int \<Rightarrow> int \<Rightarrow> jsnumber" where
  "js_plus a b = fl (a + b)"

text \<open>
  \<^verbatim>\<open>x * y\<close>: \<^verbatim>\<open>NaN\<close> if an operand is \<^verbatim>\<open>NaN\<close> or the product is zero times
  infinity, otherwise the rounded product, infinite with the product's sign when an
  operand is infinite.
\<close>

fun sign_of :: "jsnumber \<Rightarrow> int" where
  "sign_of (Num a) = sgn a"
| "sign_of PosInfinity = 1"
| "sign_of NegInfinity = - 1"
| "sign_of NaN = 0"

fun js_times :: "jsnumber \<Rightarrow> jsnumber \<Rightarrow> jsnumber" where
  "js_times (Num a) (Num b) = fl (a * b)"
| "js_times x y =
     (if x = NaN \<or> y = NaN \<or> sign_of x * sign_of y = 0 then NaN
      else if 0 < sign_of x * sign_of y then PosInfinity
      else NegInfinity)"

text \<open>
  \<^verbatim>\<open>BUS_SERVICES\<close> is imported from \<^verbatim>\<open>../constants\<close>: an object with one property
  per bus service, holding its time and price (\<^verbatim>\<open>Object.keys(BUS_SERVICES)\<close> lists the
  services). The handlers take its own properties as a parameter. The object is an
  ordinary one, so a bracket read \<^verbatim>\<open>BUS_SERVICES[k]\<close> that finds no own property goes
  on to \<^verbatim>\<open>Object.prototype\<close>, whose members are functions, or for \<^verbatim>\<open>__proto__\<close> the
  prototype object itself; only a name found in neither reads as \<^verbatim>\<open>undefined\<close>.
\<close>

record BusService =
  time :: jsstring
  price :: int

type_synonym bus_services = "jsstring \<rightharpoonup> BusService"

definition Object_prototype :: "jsstring list" where
  "Object_prototype =
     [js ''constructor'', js ''hasOwnProperty'', js ''isPrototypeOf'',
      js ''propertyIsEnumerable'', js ''toLocaleString'', js ''toString'', js ''valueOf'',
      js ''__proto__'', js ''__defineGetter__'', js ''__defineSetter__'',
      js ''__lookupGetter__'', js ''__lookupSetter__'']"

datatype property = Service BusService | Inherited | Absent

definition get_property :: "bus_services \<Rightarrow> jsstring \<Rightarrow> property" where
  "get_property BUS_SERVICES k =
     (case BUS_SERVICES k of
        Some s \<Rightarrow> Service s
      | None \<Rightarrow> if k \<in> set Object_prototype then Inherited else Absent)"

record BookingFormData =
  name :: jsstring
  phone :: jsstring
  "from" :: jsstring
  to :: jsstring
  date :: jsstring
  time :: jstext
  bus :: jsstring
  maleSeats :: int
  femaleSeats :: int
  paymentSlip :: jsstring

text \<open>The first argument of \<^verbatim>\<open>updateSeats\<close>, of type \<^verbatim>\<open>'male' | 'female'\<close>.\<close>

datatype seat_type = male | female

text \<open>A selected file; only its size is read by the form.\<close>

record File =
  file_name :: jsstring
  size_bytes :: nat

text \<open>The options object handed to \<^verbatim>\<open>Swal.fire\<close>.\<close>

record SwalOptions =
  title :: jsstring
  "text" :: jsstring
  icon :: jsstring
  confirmButtonColor :: jsstring
  popup :: jsstring

text \<open>
  What a handler does besides updating the component: the calls it makes to the event, to
  the alert library, to the \<^verbatim>\<open>onSubmit\<close> prop and to a \<^verbatim>\<open>FileReader\<close>, in order.
\<close>

datatype effect =
    PreventDefault
  | SwalFire SwalOptions
  | OnSubmit BookingFormData
  | ReadAsDataURL File

text \<open>
  The component holds \<^verbatim>\<open>formData\<close> (the \<^verbatim>\<open>useState\<close> cell) and \<^verbatim>\<open>fileInputRef\<close>:
  \<open>None\<close> when \<^verbatim>\<open>fileInputRef.current\<close> is null, otherwise the \<^verbatim>\<open>value\<close> of the file
  input.
\<close>

record BookingForm =
  formData :: BookingFormData
  fileInputRef :: "jsstring option"

text \<open>The initial draft; the date (tomorrow, from the clock) is a parameter.\<close>

definition initialFormData :: "jsstring \<Rightarrow> BookingFormData" where
  "initialFormData tomorrow =
     \<lparr>name = [], phone = [], from = [], to = [], date = tomorrow, time = Str [],
      bus = [],
      maleSeats = 0, femaleSeats = 0, paymentSlip = []\<rparr>"

definition setFormData ::
  "(BookingFormData \<Rightarrow> BookingFormData) \<Rightarrow> BookingForm \<Rightarrow> BookingForm" where
  "setFormData upd c = c\<lparr>formData := upd (formData c)\<rparr>"

subsection \<open>The handlers\<close>

text \<open>Each handler maps the component to the updated component and the calls it made.\<close>

text \<open>
  \<^verbatim>\<open>service.time\<close> and \<^verbatim>\<open>service.price\<close> on a truthy \<^verbatim>\<open>service\<close>: a member of
  \<^verbatim>\<open>Object.prototype\<close> has neither property, so both read as \<^verbatim>\<open>undefined\<close>, and
  \<^verbatim>\<open>undefined\<close> as an operand of \<^verbatim>\<open>*\<close> is \<^verbatim>\<open>NaN\<close>.
\<close>

definition handleBusChange ::
  "bus_services \<Rightarrow> jsstring \<Rightarrow> BookingForm \<Rightarrow> BookingForm \<times> effect list" where
  "handleBusChange BUS_SERVICES busName c =
     (let service = get_property BUS_SERVICES busName
      in (setFormData (\<lambda>prev. prev\<lparr>bus := busName,
                                     time := (case service of
                                                Service s \<Rightarrow> Str (BusService.time s)
                                              | Inherited \<Rightarrow> Undefined
                                              | Absent \<Rightarrow> Str [])\<rparr>) c,
          []))"

definition calculateTotal :: "bus_services \<Rightarrow> BookingForm \<Rightarrow> jsnumber" where
  "calculateTotal BUS_SERVICES c =
     (case get_property BUS_SERVICES (bus (formData c)) of
        Absent \<Rightarrow> Num 0
      | Inherited \<Rightarrow>
          js_times NaN (js_plus (maleSeats (formData c)) (femaleSeats (formData c)))
      | Service service \<Rightarrow>
          js_times (Num (price service))
            (js_plus (maleSeats (formData c)) (femaleSeats (formData c))))"

definition updateSeats ::
  "seat_type \<Rightarrow> int \<Rightarrow> BookingForm \<Rightarrow> BookingForm \<times> effect list" where
  "updateSeats type delta c =
     (setFormData (\<lambda>prev.
        let current = (if type = male then maleSeats prev else femaleSeats prev);
            newVal = max 0 (min 10 (current + delta))
        in if type = male then prev\<lparr>maleSeats := newVal\<rparr>
           else prev\<lparr>femaleSeats := newVal\<rparr>) c,
      [])"

definition fileTooLarge :: SwalOptions where
  "fileTooLarge =
     \<lparr>title = js ''File too large'',
      text = js ''Please upload an image smaller than 3MB'',
      icon = js ''error'',
      confirmButtonColor = js ''#0066FF'',
      popup = js ''rounded-3xl''\<rparr>"

text \<open>
  The argument is \<^verbatim>\<open>e.target.files\<close>: null or a list of files;
  \<^verbatim>\<open>e.target.files?.[0]\<close> is its first file, if there is one. The \<^verbatim>\<open>onloadend\<close>
  callback of the reader is \<open>reader_onloadend\<close> below; it runs in a later event.
\<close>

definition handleFileChange ::
  "File list option \<Rightarrow> BookingForm \<Rightarrow> BookingForm \<times> effect list" where
  "handleFileChange files c =
     (let file = (case files of
                    None \<Rightarrow> None
                  | Some fs \<Rightarrow> (case fs of [] \<Rightarrow> None | f # _ \<Rightarrow> Some f))
      in case file of
           None \<Rightarrow> (c, [])
         | Some f \<Rightarrow>
             if size_bytes f > 3 * 1024 * 1024 then (c, [SwalFire fileTooLarge])
             else (c, [ReadAsDataURL f]))"

definition reader_onloadend ::
  "jsstring \<Rightarrow> BookingForm \<Rightarrow> BookingForm \<times> effect list" where
  "reader_onloadend result c =
     (setFormData (\<lambda>prev. prev\<lparr>paymentSlip := result\<rparr>) c, [])"

definition removeFile :: "BookingForm \<Rightarrow> BookingForm \<times> effect list" where
  "removeFile c =
     (let c1 = setFormData (\<lambda>prev. prev\<lparr>paymentSlip := []\<rparr>) c
      in (case fileInputRef c1 of
            Some _ \<Rightarrow> c1\<lparr>fileInputRef := Some []\<rparr>
          | None \<Rightarrow> c1,
          []))"

definition seatSelectionRequired :: SwalOptions where
  "seatSelectionRequired =
     \<lparr>title = js ''Seat Selection Required'',
      text = js ''Please select at least one male or female seat.'',
      icon = js ''warning'',
      confirmButtonColor = js ''#0066FF'',
      popup = js ''rounded-3xl''\<rparr>"

definition invalidPhoneNumber :: SwalOptions where
  "invalidPhoneNumber =
     \<lparr>title = js ''Invalid Phone Number'',
      text = js ''Please enter a valid phone number (e.g., 0771234567).'',
      icon = js ''warning'',
      confirmButtonColor = js ''#0066FF'',
      popup = js ''rounded-3xl''\<rparr>"

definition handleSubmit :: "BookingForm \<Rightarrow> BookingForm \<times> effect list" where
  "handleSubmit c =
     (if maleSeats (formData c) = 0 \<and> femaleSeats (formData c) = 0
      then (c, [PreventDefault, SwalFire seatSelectionRequired])
      else if length (phone (formData c)) < 9
      then (c, [PreventDefault, SwalFire invalidPhoneNumber])
      else (c, [PreventDefault, OnSubmit (formData c)]))"

text \<open>
  The \<^verbatim>\<open>onChange\<close> of the phone input:
  \<^verbatim>\<open>setFormData({...formData, phone: e.target.value.replace(/\D/g, '').slice(0, 10)})\<close>.
\<close>

definition phone_onChange ::
  "jsstring \<Rightarrow> BookingForm \<Rightarrow> BookingForm \<times> effect list" where
  "phone_onChange v c =
     (setFormData (\<lambda>_. (formData c)\<lparr>phone := slice_str 0 10 (replace_nonDigits v)\<rparr>) c,
      [])"

subsection \<open>Reading a handler's calls\<close>

fun onSubmit_calls :: "effect list \<Rightarrow> BookingFormData list" where
  "onSubmit_calls [] = []"
| "onSubmit_calls (OnSubmit d # es) = d # onSubmit_calls es"
| "onSubmit_calls (_ # es) = onSubmit_calls es"

fun notifications :: "effect list \<Rightarrow> SwalOptions list" where
  "notifications [] = []"
| "notifications (SwalFire a # es) = a # notifications es"
| "notifications (_ # es) = notifications es"

fun decodes_started :: "effect list \<Rightarrow> File list" where
  "decodes_started [] = []"
| "decodes_started (ReadAsDataURL f # es) = f # decodes_started es"
| "decodes_started (_ # es) = decodes_started es"

subsection \<open>Inputs used in the examples\<close>

definition services0 :: bus_services where
  "services0 = [js ''Express'' \<mapsto> \<lparr>BusService.time = js ''21:30'', price = 1500\<rparr>]"

definition draft0 :: BookingFormData where
  "draft0 =
     \<lparr>name = js ''Nimal'', phone = js ''0771234567'', from = js ''Colombo'',
      to = js ''Jaffna'', date = js ''2026-01-02'', time = Str (js ''21:30''),
      bus = js ''Express'', maleSeats = 1, femaleSeats = 0, paymentSlip = []\<rparr>"

definition form0 :: BookingForm where
  "form0 = \<lparr>formData = draft0, fileInputRef = Some []\<rparr>"

section \<open>Properties\<close>

lemma replace_nonDigits_filter: "replace_nonDigits s = filter isDigit s"
  by (induction s) (simp_all add: nonDigit_def)

lemma slice_str_0_10: "slice_str 0 10 s = take 10 s"
  by (cases "length s \<le> 10") (simp_all add: slice_str_def Let_def min_def)


text \<open>The three outcomes of the bracket read.\<close>

lemma get_property_own:
  "BUS_SERVICES k = Some s \<Longrightarrow> get_property BUS_SERVICES k = Service s"
  by (simp add: get_property_def)

lemma get_property_absent:
  "k \<notin> dom BUS_SERVICES \<Longrightarrow> k \<notin> set Object_prototype \<Longrightarrow>
     get_property BUS_SERVICES k = Absent"
  by (simp add: get_property_def domIff)

lemma get_property_inherited:
  "k \<notin> dom BUS_SERVICES \<Longrightarrow> k \<in> set Object_prototype \<Longrightarrow>
     get_property BUS_SERVICES k = Inherited"
  by (simp add: get_property_def domIff)


text \<open>The three alerts are told apart by their titles.\<close>

lemma alerts_distinct:
  "seatSelectionRequired \<noteq> invalidPhoneNumber"
  "seatSelectionRequired \<noteq> fileTooLarge"
  "invalidPhoneNumber \<noteq> fileTooLarge"
  by (simp_all add: seatSelectionRequired_def invalidPhoneNumber_def fileTooLarge_def js_def)

subsection \<open>Submitting\<close>

text \<open>
  Claim C1. For every component state, \<open>handleSubmit\<close> calls \<^verbatim>\<open>onSubmit\<close> if and only if
  not both seat counts are 0 and the phone has at least 9 code units. When it does, the
  call is made exactly once, with the current draft, and no alert is shown; when it does
  not, no call is made and exactly one alert is shown: the seat alert when both counts are
  0 (whatever the phone is), the phone alert otherwise. In every case the component, and
  so the draft, is returned as it was.
\<close>

theorem handleSubmit_gate:
  "fst (handleSubmit c) = c
   \<and> (onSubmit_calls (snd (handleSubmit c)) \<noteq> []
        \<longleftrightarrow> \<not> (maleSeats (formData c) = 0 \<and> femaleSeats (formData c) = 0)
            \<and> 9 \<le> length (phone (formData c)))
   \<and> onSubmit_calls (snd (handleSubmit c)) =
       (if \<not> (maleSeats (formData c) = 0 \<and> femaleSeats (formData c) = 0)
           \<and> 9 \<le> length (phone (formData c))
        then [formData c] else [])
   \<and> notifications (snd (handleSubmit c)) =
       (if maleSeats (formData c) = 0 \<and> femaleSeats (formData c) = 0
        then [seatSelectionRequired]
        else if length (phone (formData c)) < 9 then [invalidPhoneNumber]
        else [])"
  by (simp add: handleSubmit_def)

theorem handleSubmit_gate_witness:
  "onSubmit_calls (snd (handleSubmit form0)) = [draft0]
   \<and> notifications (snd (handleSubmit form0)) = []
   \<and> fst (handleSubmit form0) = form0
   \<and> onSubmit_calls (snd (handleSubmit (form0\<lparr>formData := draft0\<lparr>maleSeats := 0, phone := js ''12345''\<rparr>\<rparr>))) = []
   \<and> notifications (snd (handleSubmit (form0\<lparr>formData := draft0\<lparr>maleSeats := 0, phone := js ''12345''\<rparr>\<rparr>)))
       = [seatSelectionRequired]
   \<and> onSubmit_calls (snd (handleSubmit (form0\<lparr>formData := draft0\<lparr>phone := js ''12345''\<rparr>\<rparr>))) = []
   \<and> notifications (snd (handleSubmit (form0\<lparr>formData := draft0\<lparr>phone := js ''12345''\<rparr>\<rparr>)))
       = [invalidPhoneNumber]"
  using handleSubmit_gate [of form0]
    handleSubmit_gate [of "form0\<lparr>formData := draft0\<lparr>maleSeats := 0, phone := js ''12345''\<rparr>\<rparr>"]
    handleSubmit_gate [of "form0\<lparr>formData := draft0\<lparr>phone := js ''12345''\<rparr>\<rparr>"]
  by (simp add: form0_def draft0_def js_def)

subsection \<open>The total\<close>




text \<open>The same holds of every inherited name that is not a key.\<close>

lemma calculateTotal_inherited:
  "bus (formData c) \<notin> dom BUS_SERVICES \<Longrightarrow> bus (formData c) \<in> set Object_prototype \<Longrightarrow>
     calculateTotal BUS_SERVICES c = NaN"
  by (simp add: calculateTotal_def get_property_inherited)

text \<open>Beyond \<open>2 ^ 53\<close> the product is rounded: three seats at a price of \<open>2 ^ 53 - 1\<close>.\<close>

lemma calculateTotal_rounded:
  "calculateTotal [js ''Express'' \<mapsto> \<lparr>BusService.time = js ''21:30'', price = 9007199254740991\<rparr>]
     (form0\<lparr>formData := draft0\<lparr>maleSeats := 2, femaleSeats := 1\<rparr>\<rparr>)
   = Num 27021597764222972"
  "(9007199254740991 :: int) * (2 + 1) = 27021597764222973"
  by (simp_all add: calculateTotal_def get_property_def form0_def draft0_def js_plus_def
      fl_def Let_def bit_length.simps)

subsection \<open>Seat counts\<close>

text \<open>
  Claim C3. For either seat type and every integer delta, \<open>updateSeats\<close> sets the count of
  that type to \<open>max 0 (min 10 (current + delta))\<close> and changes nothing else: the other count,
  the other fields of the draft and the file input keep their values, and no call is made.
  The new count is within 0 and 10; a step of -1 at count 0 and a step of +1 at count 10
  leave the component as it was.
\<close>

theorem updateSeats_clamp:
  "maleSeats (formData (fst (updateSeats male delta c)))
     = max 0 (min 10 (maleSeats (formData c) + delta))
   \<and> femaleSeats (formData (fst (updateSeats male delta c))) = femaleSeats (formData c)
   \<and> femaleSeats (formData (fst (updateSeats female delta c)))
     = max 0 (min 10 (femaleSeats (formData c) + delta))
   \<and> maleSeats (formData (fst (updateSeats female delta c))) = maleSeats (formData c)
   \<and> name (formData (fst (updateSeats type delta c))) = name (formData c)
   \<and> phone (formData (fst (updateSeats type delta c))) = phone (formData c)
   \<and> from (formData (fst (updateSeats type delta c))) = from (formData c)
   \<and> to (formData (fst (updateSeats type delta c))) = to (formData c)
   \<and> date (formData (fst (updateSeats type delta c))) = date (formData c)
   \<and> BookingFormData.time (formData (fst (updateSeats type delta c)))
     = BookingFormData.time (formData c)
   \<and> bus (formData (fst (updateSeats type delta c))) = bus (formData c)
   \<and> paymentSlip (formData (fst (updateSeats type delta c))) = paymentSlip (formData c)
   \<and> fileInputRef (fst (updateSeats type delta c)) = fileInputRef c
   \<and> snd (updateSeats type delta c) = []
   \<and> 0 \<le> maleSeats (formData (fst (updateSeats male delta c)))
   \<and> maleSeats (formData (fst (updateSeats male delta c))) \<le> 10
   \<and> 0 \<le> femaleSeats (formData (fst (updateSeats female delta c)))
   \<and> femaleSeats (formData (fst (updateSeats female delta c))) \<le> 10
   \<and> (maleSeats (formData c) = 0 \<longrightarrow> fst (updateSeats male (- 1) c) = c)
   \<and> (maleSeats (formData c) = 10 \<longrightarrow> fst (updateSeats male 1 c) = c)
   \<and> (femaleSeats (formData c) = 0 \<longrightarrow> fst (updateSeats female (- 1) c) = c)
   \<and> (femaleSeats (formData c) = 10 \<longrightarrow> fst (updateSeats female 1 c) = c)"
  by (cases type) (simp_all add: updateSeats_def setFormData_def Let_def)

theorem updateSeats_clamp_witness:
  "maleSeats (formData (form0\<lparr>formData := draft0\<lparr>maleSeats := 0, femaleSeats := 10\<rparr>\<rparr>)) = 0
   \<and> femaleSeats (formData (form0\<lparr>formData := draft0\<lparr>maleSeats := 0, femaleSeats := 10\<rparr>\<rparr>)) = 10
   \<and> fst (updateSeats male (- 1) (form0\<lparr>formData := draft0\<lparr>maleSeats := 0, femaleSeats := 10\<rparr>\<rparr>))
       = form0\<lparr>formData := draft0\<lparr>maleSeats := 0, femaleSeats := 10\<rparr>\<rparr>
   \<and> fst (updateSeats female 1 (form0\<lparr>formData := draft0\<lparr>maleSeats := 0, femaleSeats := 10\<rparr>\<rparr>))
       = form0\<lparr>formData := draft0\<lparr>maleSeats := 0, femaleSeats := 10\<rparr>\<rparr>
   \<and> maleSeats (formData (form0\<lparr>formData := draft0\<lparr>maleSeats := 10, femaleSeats := 0\<rparr>\<rparr>)) = 10
   \<and> femaleSeats (formData (form0\<lparr>formData := draft0\<lparr>maleSeats := 10, femaleSeats := 0\<rparr>\<rparr>)) = 0
   \<and> fst (updateSeats male 1 (form0\<lparr>formData := draft0\<lparr>maleSeats := 10, femaleSeats := 0\<rparr>\<rparr>))
       = form0\<lparr>formData := draft0\<lparr>maleSeats := 10, femaleSeats := 0\<rparr>\<rparr>
   \<and> fst (updateSeats female (- 1) (form0\<lparr>formData := draft0\<lparr>maleSeats := 10, femaleSeats := 0\<rparr>\<rparr>))
       = form0\<lparr>formData := draft0\<lparr>maleSeats := 10, femaleSeats := 0\<rparr>\<rparr>
   \<and> maleSeats (formData (fst (updateSeats male 3 form0))) = 4
   \<and> maleSeats (formData (fst (updateSeats male 25 form0))) = 10
   \<and> maleSeats (formData (fst (updateSeats male (- 7) form0))) = 0"
  using updateSeats_clamp [of "- 1" "form0\<lparr>formData := draft0\<lparr>maleSeats := 0, femaleSeats := 10\<rparr>\<rparr>" male]
    updateSeats_clamp [of 1 "form0\<lparr>formData := draft0\<lparr>maleSeats := 10, femaleSeats := 0\<rparr>\<rparr>" male]
    updateSeats_clamp [of 3 form0 male]
    updateSeats_clamp [of 25 form0 male]
    updateSeats_clamp [of "- 7" form0 male]
  by (simp add: form0_def draft0_def)

subsection \<open>The phone field\<close>

text \<open>
  Claim C4. For every input string the phone handler stores the input with every code unit
  outside \<^verbatim>\<open>0\<close>..\<^verbatim>\<open>9\<close> removed, cut to its first 10 code units; the input
  \<^verbatim>\<open>07abc71234567\<close> is stored as \<^verbatim>\<open>0771234567\<close>. The handler is total and shows no
  alert: no input is rejected.
\<close>

theorem phone_onChange_sanitize:
  "phone (formData (fst (phone_onChange v c))) = take 10 (filter isDigit v)
   \<and> phone (formData (fst (phone_onChange (js ''07abc71234567'') c))) = js ''0771234567''
   \<and> snd (phone_onChange v c) = []"
  by (simp add: phone_onChange_def setFormData_def replace_nonDigits_filter slice_str_0_10
      js_def isDigit_def)

theorem phone_onChange_sanitize_witness:
  "phone (formData (fst (phone_onChange (js ''+94 (77) 123-4567 ext. 89'') form0)))
     = js ''9477123456''"
  using phone_onChange_sanitize [of "js ''+94 (77) 123-4567 ext. 89''" form0]
  by (simp add: js_def isDigit_def)

subsection \<open>Choosing a bus: the time\<close>

text \<open>
  Claim C5. For every bus name, \<open>handleBusChange\<close> sets \<open>bus\<close> to that name. It sets
  \<open>time\<close> to the time of the table's entry for the name when there is one, and to the empty
  string when the name is neither a key of the table nor the name of a member of
  \<^verbatim>\<open>Object.prototype\<close>.
\<close>

theorem handleBusChange_time:
  "bus (formData (fst (handleBusChange BUS_SERVICES busName c))) = busName
   \<and> (\<forall>service. BUS_SERVICES busName = Some service \<longrightarrow>
         BookingFormData.time (formData (fst (handleBusChange BUS_SERVICES busName c)))
           = Str (BusService.time service))
   \<and> (busName \<notin> dom BUS_SERVICES \<and> busName \<notin> set Object_prototype \<longrightarrow>
         BookingFormData.time (formData (fst (handleBusChange BUS_SERVICES busName c)))
           = Str [])"
  by (auto simp add: handleBusChange_def setFormData_def get_property_own get_property_absent)

theorem handleBusChange_time_witness:
  "services0 (js ''Express'') = Some \<lparr>BusService.time = js ''21:30'', price = 1500\<rparr>
   \<and> BookingFormData.time (formData (fst (handleBusChange services0 (js ''Express'')
         (form0\<lparr>formData := initialFormData (js ''2026-01-02'')\<rparr>)))) = Str (js ''21:30'')
   \<and> js ''Night Rider'' \<notin> dom services0 \<and> js ''Night Rider'' \<notin> set Object_prototype
   \<and> BookingFormData.time (formData (fst (handleBusChange services0 (js ''Night Rider'') form0)))
       = Str []
   \<and> bus (formData (fst (handleBusChange services0 (js ''Night Rider'') form0)))
       = js ''Night Rider''"
  using handleBusChange_time [of services0 "js ''Express''"
      "form0\<lparr>formData := initialFormData (js ''2026-01-02'')\<rparr>"]
    handleBusChange_time [of services0 "js ''Night Rider''" form0]
  by (simp add: services0_def Object_prototype_def js_def)

text \<open>
  The time is not cleared for every name outside the table: \<^verbatim>\<open>constructor\<close> is not a
  key, the read finds the inherited member, and \<open>time\<close> becomes \<^verbatim>\<open>undefined\<close>.
\<close>

theorem handleBusChange_time_counterexample:
  "js ''constructor'' \<notin> dom services0
   \<and> BookingFormData.time (formData (fst (handleBusChange services0 (js ''constructor'') form0)))
       = Undefined
   \<and> BookingFormData.time (formData (fst (handleBusChange services0 (js ''constructor'') form0)))
       \<noteq> Str []"
  by (simp add: handleBusChange_def setFormData_def get_property_def Object_prototype_def
      services0_def js_def)

text \<open>The same holds of every inherited name that is not a key.\<close>

lemma handleBusChange_inherited:
  "busName \<notin> dom BUS_SERVICES \<Longrightarrow> busName \<in> set Object_prototype \<Longrightarrow>
     BookingFormData.time (formData (fst (handleBusChange BUS_SERVICES busName c))) = Undefined"
  by (simp add: handleBusChange_def setFormData_def get_property_inherited)

subsection \<open>Choosing a bus: the other fields\<close>

text \<open>
  Claim C10. For every bus name and every component state, \<open>handleBusChange\<close> leaves
  \<open>name\<close>, \<open>phone\<close>, \<open>from\<close>, \<open>to\<close>, \<open>date\<close>, \<open>maleSeats\<close>, \<open>femaleSeats\<close> and
  \<open>paymentSlip\<close> as they were.
\<close>

theorem handleBusChange_frame:
  "name (formData (fst (handleBusChange BUS_SERVICES busName c))) = name (formData c)
   \<and> phone (formData (fst (handleBusChange BUS_SERVICES busName c))) = phone (formData c)
   \<and> from (formData (fst (handleBusChange BUS_SERVICES busName c))) = from (formData c)
   \<and> to (formData (fst (handleBusChange BUS_SERVICES busName c))) = to (formData c)
   \<and> date (formData (fst (handleBusChange BUS_SERVICES busName c))) = date (formData c)
   \<and> maleSeats (formData (fst (handleBusChange BUS_SERVICES busName c)))
       = maleSeats (formData c)
   \<and> femaleSeats (formData (fst (handleBusChange BUS_SERVICES busName c)))
       = femaleSeats (formData c)
   \<and> paymentSlip (formData (fst (handleBusChange BUS_SERVICES busName c)))
       = paymentSlip (formData c)"
  by (simp add: handleBusChange_def setFormData_def)

theorem handleBusChange_frame_witness:
  "formData (fst (handleBusChange services0 (js ''Night Rider'') form0))
     = draft0\<lparr>bus := js ''Night Rider'', time := Str []\<rparr>"
  using handleBusChange_frame [of services0 "js ''Night Rider''" form0]
  by (simp add: handleBusChange_def get_property_def Object_prototype_def setFormData_def
      services0_def form0_def draft0_def js_def)

subsection \<open>A file over the cap\<close>

text \<open>
  Claim C6. When the selected file (the first of the file list) is larger than 3 MB, that
  is \<open>3 * 1024 * 1024\<close> bytes, \<open>handleFileChange\<close> returns the component as it was, so
  \<open>paymentSlip\<close> and every other field keep their values, starts no decode, and shows the
  file-too-large alert.
\<close>

theorem handleFileChange_too_large:
  "3 * 1024 * 1024 < size_bytes f \<Longrightarrow>
     fst (handleFileChange (Some (f # fs)) c) = c
     \<and> paymentSlip (formData (fst (handleFileChange (Some (f # fs)) c)))
         = paymentSlip (formData c)
     \<and> decodes_started (snd (handleFileChange (Some (f # fs)) c)) = []
     \<and> notifications (snd (handleFileChange (Some (f # fs)) c)) = [fileTooLarge]"
  by (simp add: handleFileChange_def)

theorem handleFileChange_too_large_witness:
  "3 * 1024 * 1024 < size_bytes \<lparr>file_name = js ''slip.png'', size_bytes = 4 * 1024 * 1024\<rparr>
   \<and> fst (handleFileChange
        (Some [\<lparr>file_name = js ''slip.png'', size_bytes = 4 * 1024 * 1024\<rparr>]) form0) = form0
   \<and> notifications (snd (handleFileChange
        (Some [\<lparr>file_name = js ''slip.png'', size_bytes = 4 * 1024 * 1024\<rparr>]) form0))
       = [fileTooLarge]
   \<and> decodes_started (snd (handleFileChange
        (Some [\<lparr>file_name = js ''slip.png'', size_bytes = 4 * 1024 * 1024\<rparr>]) form0)) = []"
proof -
  have big: "3 * 1024 * 1024
      < size_bytes \<lparr>file_name = js ''slip.png'', size_bytes = 4 * 1024 * 1024\<rparr>"
    by simp
  show ?thesis
    using big handleFileChange_too_large [OF big, of "[]" form0] by simp
qed

subsection \<open>The cap is strict\<close>

text \<open>
  Claim C9. The size cap is strict, against 3145728 bytes: the selected file is rejected
  with the alert if and only if its size is greater than 3145728, and is handed to the
  decoder if and only if its size is at most 3145728; a file of exactly 3145728 bytes is
  decoded.
\<close>

theorem handleFileChange_cap_strict:
  "(notifications (snd (handleFileChange (Some (f # fs)) c)) = [fileTooLarge]
      \<longleftrightarrow> 3145728 < size_bytes f)
   \<and> (decodes_started (snd (handleFileChange (Some (f # fs)) c)) = [f]
      \<longleftrightarrow> size_bytes f \<le> 3145728)
   \<and> (size_bytes f = 3145728 \<longrightarrow>
        handleFileChange (Some (f # fs)) c = (c, [ReadAsDataURL f]))
   \<and> (3145728 < size_bytes f \<longrightarrow>
        handleFileChange (Some (f # fs)) c = (c, [SwalFire fileTooLarge]))
   \<and> (size_bytes f \<le> 3145728 \<longrightarrow>
        handleFileChange (Some (f # fs)) c = (c, [ReadAsDataURL f]))"
  by (simp add: handleFileChange_def)

theorem handleFileChange_cap_strict_witness:
  "size_bytes \<lparr>file_name = js ''slip.jpg'', size_bytes = 3145728\<rparr> = 3145728
   \<and> handleFileChange (Some [\<lparr>file_name = js ''slip.jpg'', size_bytes = 3145728\<rparr>]) form0
       = (form0, [ReadAsDataURL \<lparr>file_name = js ''slip.jpg'', size_bytes = 3145728\<rparr>])
   \<and> 3145728 < size_bytes \<lparr>file_name = js ''slip.jpg'', size_bytes = 3145729\<rparr>
   \<and> handleFileChange (Some [\<lparr>file_name = js ''slip.jpg'', size_bytes = 3145729\<rparr>]) form0
       = (form0, [SwalFire fileTooLarge])"
  using handleFileChange_cap_strict
      [of "\<lparr>file_name = js ''slip.jpg'', size_bytes = 3145728\<rparr>" "[]" form0]
    handleFileChange_cap_strict
      [of "\<lparr>file_name = js ''slip.jpg'', size_bytes = 3145729\<rparr>" "[]" form0]
  by simp

subsection \<open>No file selected\<close>

text \<open>
  Claim C8. When the file-change event carries no file (the file list is null or empty),
  \<open>handleFileChange\<close> returns the component as it was and makes no call: no alert, no
  decode.
\<close>

theorem handleFileChange_no_file:
  "handleFileChange None c = (c, [])
   \<and> handleFileChange (Some []) c = (c, [])
   \<and> notifications (snd (handleFileChange None c)) = []
   \<and> decodes_started (snd (handleFileChange None c)) = []
   \<and> notifications (snd (handleFileChange (Some []) c)) = []
   \<and> decodes_started (snd (handleFileChange (Some []) c)) = []"
  by (simp add: handleFileChange_def)

theorem handleFileChange_no_file_witness:
  "handleFileChange None form0 = (form0, [])
   \<and> handleFileChange (Some []) form0 = (form0, [])"
  using handleFileChange_no_file [of form0] by simp

subsection \<open>Removing the slip\<close>

text \<open>
  Claim C7. For every component state, \<open>removeFile\<close> sets \<open>paymentSlip\<close> to the empty
  string and leaves every other field of the draft as it was.
\<close>

theorem removeFile_clears_slip:
  "paymentSlip (formData (fst (removeFile c))) = []
   \<and> name (formData (fst (removeFile c))) = name (formData c)
   \<and> phone (formData (fst (removeFile c))) = phone (formData c)
   \<and> from (formData (fst (removeFile c))) = from (formData c)
   \<and> to (formData (fst (removeFile c))) = to (formData c)
   \<and> date (formData (fst (removeFile c))) = date (formData c)
   \<and> BookingFormData.time (formData (fst (removeFile c))) = BookingFormData.time (formData c)
   \<and> bus (formData (fst (removeFile c))) = bus (formData c)
   \<and> maleSeats (formData (fst (removeFile c))) = maleSeats (formData c)
   \<and> femaleSeats (formData (fst (removeFile c))) = femaleSeats (formData c)"
  by (simp add: removeFile_def setFormData_def Let_def split: option.split)

theorem removeFile_clears_slip_witness:
  "formData (fst (removeFile (form0\<lparr>formData := draft0\<lparr>paymentSlip := js ''data:image/png;base64,iVBORw0KGgo=''\<rparr>\<rparr>)))
     = draft0"
  using removeFile_clears_slip
      [of "form0\<lparr>formData := draft0\<lparr>paymentSlip := js ''data:image/png;base64,iVBORw0KGgo=''\<rparr>\<rparr>"]
  by (simp add: removeFile_def setFormData_def form0_def draft0_def)

end
